theory Spec2Isabelle
  imports Complex_Main "HOL-Library.AList"
begin

section \<open>Python values\<close>

text \<open>
  The backend is one Python module, \<^verbatim>\<open>Project/Backend/main.py\<close>: a start-up block and
  two request handlers that forward source code to a chat-completion service and relay
  the reply. The handlers are embedded as HOL functions. Everything they do beyond
  computing a value is explicit: a raised exception is the \<open>Inl\<close> of a sum, and the line
  printed on a failure is part of the result.

  An exception is kept as its class name and the text \<^verbatim>\<open>str(e)\<close> gives. Only subclasses
  of \<^verbatim>\<open>Exception\<close> are modelled, which is what \<^verbatim>\<open>except Exception\<close> catches.
\<close>

datatype py_exception = PyException (exc_class: string) (exc_str: string)

text \<open>
  A Python \<^verbatim>\<open>str\<close> is a sequence of code points, and it may hold a lone surrogate
  (\<^verbatim>\<open>json.loads\<close> returns one for \<^verbatim>\<open>"\ud800"\<close>), which has no UTF-8 encoding. A \<^verbatim>\<open>str\<close> that
  comes from a request or from the model is therefore kept as a list of units: the bytes
  of the UTF-8 encoding of its other code points, and each lone surrogate as a unit of
  its own. Text of the program itself (literals, messages of exceptions) is a HOL string
  and enters such a \<^verbatim>\<open>str\<close> through \<open>py\<close>.
\<close>

datatype py_char = Ch char | Surrogate nat

type_synonym py_str = "py_char list"

definition py :: "string \<Rightarrow> py_str" where
  "py s = map Ch s"

fun is_Ch :: "py_char \<Rightarrow> bool" where
  "is_Ch (Ch ch) = True"
| "is_Ch (Surrogate n) = False"

text \<open>\<^verbatim>\<open>s.encode("utf-8")\<close> succeeds exactly when \<open>s\<close> holds no lone surrogate.\<close>

definition encodable :: "py_str \<Rightarrow> bool" where
  "encodable s = list_all is_Ch s"

text \<open>
  What \<^verbatim>\<open>json.loads\<close> can return. A Python float is a finite double, an infinity or NaN
  (\<^verbatim>\<open>json.loads\<close> reads \<^verbatim>\<open>NaN\<close>, \<^verbatim>\<open>Infinity\<close> and \<^verbatim>\<open>1e999\<close>); a finite double is kept as
  the rational it denotes. A \<^verbatim>\<open>dict\<close> is the list of its items in insertion order.
\<close>

datatype py_float = Finite rat | PosInf | NegInf | NaN

datatype json =
    JNull
  | JBool bool
  | JInt int
  | JFloat py_float
  | JStr py_str
  | JArr "json list"
  | JObj "(py_str \<times> json) list"

fun type_name :: "json \<Rightarrow> string" where
  "type_name JNull = ''NoneType''"
| "type_name (JBool b) = ''bool''"
| "type_name (JInt i) = ''int''"
| "type_name (JFloat f) = ''float''"
| "type_name (JStr s) = ''str''"
| "type_name (JArr xs) = ''list''"
| "type_name (JObj kvs) = ''dict''"

definition quoted :: "string \<Rightarrow> string" where
  "quoted s = [CHR 0x27] @ s @ [CHR 0x27]"

text \<open>Sequencing of steps that may raise: the first exception ends the block.\<close>

definition and_then :: "'e + 'a \<Rightarrow> ('a \<Rightarrow> 'e + 'b) \<Rightarrow> 'e + 'b" where
  "and_then r f = (case r of Inl e \<Rightarrow> Inl e | Inr x \<Rightarrow> f x)"

text \<open>
  \<^verbatim>\<open>ai_data.get(key, default)\<close>: only a \<^verbatim>\<open>dict\<close> has the method; on any other reply
  (\<^verbatim>\<open>json.loads\<close> also returns lists, strings, numbers, booleans and \<^verbatim>\<open>None\<close>) the
  attribute lookup raises.
\<close>

definition dict_get :: "(py_str \<times> json) list \<Rightarrow> py_str \<Rightarrow> json \<Rightarrow> json" where
  "dict_get kvs k dflt = (case map_of kvs k of None \<Rightarrow> dflt | Some v \<Rightarrow> v)"

definition py_get :: "json \<Rightarrow> py_str \<Rightarrow> json \<Rightarrow> py_exception + json" where
  "py_get d k dflt =
     (case d of
        JObj kvs \<Rightarrow> Inr (dict_get kvs k dflt)
      | _ \<Rightarrow> Inl (PyException ''AttributeError''
                 (quoted (type_name d) @ '' object has no attribute '' @ quoted ''get'')))"

text \<open>
  \<^verbatim>\<open>ai_data[key] = v\<close>: an existing key keeps its place and gets the new value, a new
  key is added at the end.
\<close>

definition py_setitem :: "json \<Rightarrow> py_str \<Rightarrow> json \<Rightarrow> py_exception + json" where
  "py_setitem d k v =
     (case d of
        JObj kvs \<Rightarrow> Inr (JObj (AList.update k v kvs))
      | JArr xs \<Rightarrow> Inl (PyException ''TypeError''
                   ''list indices must be integers or slices, not str'')
      | _ \<Rightarrow> Inl (PyException ''TypeError''
                 (quoted (type_name d) @ '' object does not support item assignment'')))"

text \<open>
  What the module uses and does not define: the client's \<^verbatim>\<open>chat.completions.create\<close>,
  \<^verbatim>\<open>json.loads\<close>, the conversion \<^verbatim>\<open>int(s)\<close> of a string, and how deep a value the
  framework's JSON encoder can walk before it runs out of stack. They are parameters of
  the model, so every theorem below holds whatever the service answers, whatever text
  the parser accepts, whatever strings \<^verbatim>\<open>int\<close> reads as numbers and whatever the encoder's
  limit is.
\<close>

datatype AsyncClient = AsyncClient (api_key: string)

record chat_message =
  role :: string
  content :: py_str

text \<open>
  The keyword arguments of one \<^verbatim>\<open>create\<close> call. The temperature is the literal
  \<^verbatim>\<open>0.1\<close> of the source, kept as the decimal fraction it is written as.
\<close>

record chat_call =
  messages :: "chat_message list"
  model :: string
  temperature :: rat
  response_format :: "(string \<times> string) list"

text \<open>A completion, reduced to what the handlers read: each choice's \<^verbatim>\<open>message.content\<close>,
  which the service may leave \<^verbatim>\<open>None\<close>.\<close>

record chat_completion =
  choices :: "py_str option list"

record py_runtime =
  chat_completions_create :: "AsyncClient \<Rightarrow> chat_call \<Rightarrow> py_exception + chat_completion"
  json_loads :: "py_str \<Rightarrow> py_exception + json"
  int_of_str :: "py_str \<Rightarrow> py_exception + int"
  encodes_deep :: "json \<Rightarrow> bool"

text \<open>
  \<^verbatim>\<open>int(x)\<close> on a value of a parsed reply: an \<^verbatim>\<open>int\<close> is returned as it is, a \<^verbatim>\<open>bool\<close> is
  0 or 1, a finite float is truncated towards zero, a string is parsed; NaN, the
  infinities, \<^verbatim>\<open>None\<close>, lists and dicts raise.
\<close>

definition trunc_rat :: "rat \<Rightarrow> int" where
  "trunc_rat q = (if 0 \<le> q then \<lfloor>q\<rfloor> else \<lceil>q\<rceil>)"

definition int_type_error :: "json \<Rightarrow> py_exception" where
  "int_type_error v = PyException ''TypeError''
     (''int() argument must be a string, a bytes-like object or a real number, not ''
        @ quoted (type_name v))"

fun py_int :: "py_runtime \<Rightarrow> json \<Rightarrow> py_exception + int" where
  "py_int rt (JInt i) = Inr i"
| "py_int rt (JBool b) = Inr (if b then 1 else 0)"
| "py_int rt (JFloat (Finite q)) = Inr (trunc_rat q)"
| "py_int rt (JFloat NaN) =
     Inl (PyException ''ValueError'' ''cannot convert float NaN to integer'')"
| "py_int rt (JFloat PosInf) =
     Inl (PyException ''OverflowError'' ''cannot convert float infinity to integer'')"
| "py_int rt (JFloat NegInf) =
     Inl (PyException ''OverflowError'' ''cannot convert float infinity to integer'')"
| "py_int rt (JStr s) = int_of_str rt s"
| "py_int rt JNull = Inl (int_type_error JNull)"
| "py_int rt (JArr xs) = Inl (int_type_error (JArr xs))"
| "py_int rt (JObj kvs) = Inl (int_type_error (JObj kvs))"

text \<open>
  \<^verbatim>\<open>json.loads(response.choices[0].message.content)\<close>: indexing an empty list of
  choices raises, and so does parsing \<^verbatim>\<open>None\<close>.
\<close>

definition loads_first_choice :: "py_runtime \<Rightarrow> chat_completion \<Rightarrow> py_exception + json" where
  "loads_first_choice rt response =
     (case choices response of
        [] \<Rightarrow> Inl (PyException ''IndexError'' ''list index out of range'')
      | None # _ \<Rightarrow> Inl (PyException ''TypeError''
            ''the JSON object must be str, bytes or bytearray, not NoneType'')
      | Some s # _ \<Rightarrow> json_loads rt s)"

section \<open>The request and response models\<close>

record CodeRequest =
  code :: py_str

record CodeResponse =
  original_score :: int
  refined_score :: int
  bugs :: py_str
  performance :: py_str
  improvements :: "py_str list"
  optimized_code :: py_str
  explanation :: py_str
  time_complexity :: py_str
  space_complexity :: py_str

record TranslateRequest =
  code :: py_str
  target_language :: py_str

section \<open>The review handler\<close>

definition review_system_prompt :: string where
  \<open>review_system_prompt =
    ''You are a strict Senior Software Architect. Analyze code using this exact 100-point rubric:\<newline>'' @
    ''1. Logic & Correctness (30 pts): Does it work? Are there edge-case bugs?\<newline>'' @
    ''2. Time/Space Efficiency (25 pts): Is the algorithm optimal (Big O)?\<newline>'' @
    ''3. Security & Safety (15 pts): Are there vulnerabilities or crash risks?\<newline>'' @
    ''4. Readability & Standards (15 pts): Variable naming, clean code patterns?\<newline>'' @
    ''5. Maintainability (15 pts): Is the architecture scalable?\<newline>'' @
    ''\<newline>'' @
    ''STRICT RULES:\<newline>'' @
    ''- Calculate the \'original_score\' by summing the points above for the USER\'S code.\<newline>'' @
    ''- Calculate the \'refined_score\' for YOUR optimized version (this should be 95-100).\<newline>'' @
    ''- If the user\'s code is already optimal, \'original_score\' must be 100.\<newline>'' @
    ''- \'optimized_code\' must be a single string. Use '' @
    [CHR 0x27, CHR 0x5C] @
    ''n\' for new lines and escape all quotes.\<newline>'' @
    ''- Return ONLY a valid JSON object. No markdown, no triple quotes.\<newline>'' @
    ''\<newline>'' @
    ''JSON Schema:\<newline>'' @
    ''{\<newline>'' @
    ''    "original_score": int,\<newline>'' @
    ''    "refined_score": int,\<newline>'' @
    ''    "bugs": "string",\<newline>'' @
    ''    "performance": "string",\<newline>'' @
    ''    "improvements": ["list"],\<newline>'' @
    ''    "optimized_code": "string",\<newline>'' @
    ''    "explanation": "string",\<newline>'' @
    ''    "time_complexity": "string",\<newline>'' @
    ''    "space_complexity": "string"\<newline>'' @
    ''}''\<close>

definition review_call :: "CodeRequest \<Rightarrow> chat_call" where
  "review_call request =
     \<lparr>messages =
        [\<lparr>role = ''system'', content = py review_system_prompt\<rparr>,
         \<lparr>role = ''user'',
          content = py (''Perform a rubric-based review of this code:\<newline>'' @ ''\<newline>'')
                      @ CodeRequest.code request\<rparr>],
      model = ''llama-3.3-70b-versatile'',
      temperature = 1 / 10,
      response_format = [(''type'', ''json_object'')]\<rparr>"

text \<open>\<^verbatim>\<open>ai_data[key] = int(ai_data.get(key, 0))\<close>\<close>

definition coerce_score :: "py_runtime \<Rightarrow> py_str \<Rightarrow> json \<Rightarrow> py_exception + json" where
  "coerce_score rt k ai_data =
     and_then (py_get ai_data k (JInt 0)) (\<lambda>v.
     and_then (py_int rt v) (\<lambda>i.
     py_setitem ai_data k (JInt i)))"

text \<open>The body of the \<^verbatim>\<open>try\<close> block: what it returns, or the exception that leaves it.\<close>

definition review_try :: "py_runtime \<Rightarrow> AsyncClient \<Rightarrow> CodeRequest \<Rightarrow> py_exception + json" where
  "review_try rt client request =
     and_then (chat_completions_create rt client (review_call request)) (\<lambda>response.
     and_then (loads_first_choice rt response) (\<lambda>ai_data.
     and_then (coerce_score rt (py ''original_score'') ai_data) (\<lambda>ai_data.
     coerce_score rt (py ''refined_score'') ai_data)))"

text \<open>
  How a handler ends: it returns a value, or raises the \<^verbatim>\<open>HTTPException\<close> it builds.
  With it go the lines it printed.
\<close>

datatype HTTPException = HTTPException (status_code: nat) (detail: string)

datatype handler_exit = Returned json | Raised HTTPException

record 'a handled =
  printed :: "string list"
  outcome :: 'a

definition review_code :: "py_runtime \<Rightarrow> AsyncClient \<Rightarrow> CodeRequest \<Rightarrow> handler_exit handled" where
  "review_code rt client request =
     (case review_try rt client request of
        Inr ai_data \<Rightarrow> \<lparr>printed = [], outcome = Returned ai_data\<rparr>
      | Inl e \<Rightarrow>
          \<lparr>printed = [''Error: '' @ exc_str e],
           outcome = Raised (HTTPException 500 ''Heuristic analysis engine failed.'')\<rparr>)"

section \<open>The translate handler\<close>

definition translate_system_prompt :: "TranslateRequest \<Rightarrow> py_str" where
  \<open>translate_system_prompt request =
    py ''You are a polyglot expert. Translate this code to '' @ target_language request @
    py (''.\<newline>'' @
        ''Rules: Return ONLY JSON: {"translated_code": "string"}. Use '' @ [CHR 0x27, CHR 0x5C] @
        ''n\' and escape double quotes. No markdown tags.'')\<close>

definition translate_call :: "TranslateRequest \<Rightarrow> chat_call" where
  "translate_call request =
     \<lparr>messages =
        [\<lparr>role = ''system'', content = translate_system_prompt request\<rparr>,
         \<lparr>role = ''user'', content = TranslateRequest.code request\<rparr>],
      model = ''llama-3.3-70b-versatile'',
      temperature = 1 / 10,
      response_format = [(''type'', ''json_object'')]\<rparr>"

definition translate_try :: "py_runtime \<Rightarrow> AsyncClient \<Rightarrow> TranslateRequest \<Rightarrow> py_exception + json" where
  "translate_try rt client request =
     and_then (chat_completions_create rt client (translate_call request)) (\<lambda>response.
     loads_first_choice rt response)"

definition translate_code :: "py_runtime \<Rightarrow> AsyncClient \<Rightarrow> TranslateRequest \<Rightarrow> handler_exit handled" where
  "translate_code rt client request =
     (case translate_try rt client request of
        Inr v \<Rightarrow> \<lparr>printed = [], outcome = Returned v\<rparr>
      | Inl e \<Rightarrow>
          \<lparr>printed = [],
           outcome = Returned (JObj [(py ''translated_code'',
                        JStr (py (''// Translation error: '' @ exc_str e)))])\<rparr>)"

section \<open>The routes\<close>

text \<open>
  Around a handler stands what its decorator and the pydantic models declare. The JSON
  body of a request is validated against the handler's request model before the handler
  is called: a required field that is missing or is not a string is an error, and the
  errors are answered with 422. Each error echoes its input: the whole body for a
  missing field, the field's value for a value of another type. A raised
  \<^verbatim>\<open>HTTPException\<close> becomes a response with its status and the body \<^verbatim>\<open>{"detail": ...}\<close>.
  A returned value becomes the body of a 200 response; on \<^verbatim>\<open>/review\<close>, declared with
  \<^verbatim>\<open>response_model=CodeResponse\<close>, it is first validated against that model and only the
  model's fields are sent. The validation is that of pydantic 2, which the annotation
  \<^verbatim>\<open>list[str]\<close> goes with: a \<^verbatim>\<open>str\<close> field takes a string and nothing else, and a string
  may hold a lone surrogate.

  Every body is written as JSON and encoded as UTF-8. This fails on NaN and the
  infinities (\<^verbatim>\<open>allow_nan=False\<close>) and on a string or a key that holds a lone surrogate,
  and the encoder, which recurses into the value, can run out of stack on a deeply
  nested one. A value that fails the response model or cannot be written is an error
  outside the handler and is answered with a plain 500.

  A request body is the JSON object the client sent, as the list of its items.
\<close>

datatype field_error = FieldError (loc: "string list") (err_type: string) (err_input: json)

datatype http_body = JsonBody json | TextBody string | ValidationErrors "field_error list"

datatype http_response = Response (status: nat) (body: http_body)

fun json_compliant :: "json \<Rightarrow> bool" where
  "json_compliant (JFloat f) = (case f of Finite q \<Rightarrow> True | _ \<Rightarrow> False)"
| "json_compliant (JStr s) = encodable s"
| "json_compliant (JArr xs) = list_all json_compliant xs"
| "json_compliant (JObj kvs) = list_all (\<lambda>kv. encodable (fst kv) \<and> json_compliant (snd kv)) kvs"
| "json_compliant _ = True"

fun nesting :: "json \<Rightarrow> nat" where
  "nesting (JArr xs) = Suc (foldr max (map nesting xs) 0)"
| "nesting (JObj kvs) = Suc (foldr max (map (\<lambda>kv. nesting (snd kv)) kvs) 0)"
| "nesting _ = 0"

text \<open>
  Whether a value can be written as a response body. An object of scalars and of lists
  of scalars is within every encoder's reach; for a value nested deeper the runtime
  decides.
\<close>

definition renders :: "py_runtime \<Rightarrow> json \<Rightarrow> bool" where
  "renders rt v = (json_compliant v \<and> (nesting v \<le> 2 \<or> encodes_deep rt v))"

definition internal_server_error :: http_response where
  "internal_server_error = Response 500 (TextBody ''Internal Server Error'')"

definition required_str :: "(py_str \<times> json) list \<Rightarrow> string \<Rightarrow> field_error list + py_str" where
  "required_str kvs k =
     (case map_of kvs (py k) of
        None \<Rightarrow> Inl [FieldError [''body'', k] ''missing'' (JObj kvs)]
      | Some (JStr s) \<Rightarrow> Inr s
      | Some v \<Rightarrow> Inl [FieldError [''body'', k] ''string_type'' v])"

definition parse_CodeRequest :: "(py_str \<times> json) list \<Rightarrow> field_error list + CodeRequest" where
  "parse_CodeRequest kvs =
     (case required_str kvs ''code'' of
        Inl errs \<Rightarrow> Inl errs
      | Inr c \<Rightarrow> Inr \<lparr>CodeRequest.code = c\<rparr>)"

definition parse_TranslateRequest :: "(py_str \<times> json) list \<Rightarrow> field_error list + TranslateRequest" where
  "parse_TranslateRequest kvs =
     (case (required_str kvs ''code'', required_str kvs ''target_language'') of
        (Inr c, Inr t) \<Rightarrow> Inr \<lparr>TranslateRequest.code = c, target_language = t\<rparr>
      | (Inl errs, Inr t) \<Rightarrow> Inl errs
      | (Inr c, Inl errs) \<Rightarrow> Inl errs
      | (Inl errs, Inl errs') \<Rightarrow> Inl (errs @ errs'))"

text \<open>The answer to a request that fails validation: the list of errors, if every echoed
  input can be written.\<close>

definition reject :: "py_runtime \<Rightarrow> field_error list \<Rightarrow> http_response" where
  "reject rt errs =
     (if list_all (\<lambda>e. renders rt (err_input e)) errs
      then Response 422 (ValidationErrors errs)
      else internal_server_error)"

text \<open>The fields of \<^verbatim>\<open>CodeResponse\<close>, all required: two \<^verbatim>\<open>int\<close>, six \<^verbatim>\<open>str\<close>, one \<^verbatim>\<open>list[str]\<close>.\<close>

definition field_int :: "(py_str \<times> json) list \<Rightarrow> string \<Rightarrow> int option" where
  "field_int kvs k = (case map_of kvs (py k) of Some (JInt i) \<Rightarrow> Some i | _ \<Rightarrow> None)"

definition field_str :: "(py_str \<times> json) list \<Rightarrow> string \<Rightarrow> py_str option" where
  "field_str kvs k = (case map_of kvs (py k) of Some (JStr s) \<Rightarrow> Some s | _ \<Rightarrow> None)"

fun str_items :: "json list \<Rightarrow> py_str list option" where
  "str_items [] = Some []"
| "str_items (JStr s # xs) = map_option ((#) s) (str_items xs)"
| "str_items (_ # xs) = None"

definition field_str_list :: "(py_str \<times> json) list \<Rightarrow> string \<Rightarrow> py_str list option" where
  "field_str_list kvs k = (case map_of kvs (py k) of Some (JArr xs) \<Rightarrow> str_items xs | _ \<Rightarrow> None)"

definition validate_CodeResponse :: "json \<Rightarrow> CodeResponse option" where
  "validate_CodeResponse v =
     (case v of
        JObj kvs \<Rightarrow>
          Option.bind (field_int kvs ''original_score'') (\<lambda>a.
          Option.bind (field_int kvs ''refined_score'') (\<lambda>b.
          Option.bind (field_str kvs ''bugs'') (\<lambda>c.
          Option.bind (field_str kvs ''performance'') (\<lambda>d.
          Option.bind (field_str_list kvs ''improvements'') (\<lambda>e.
          Option.bind (field_str kvs ''optimized_code'') (\<lambda>f.
          Option.bind (field_str kvs ''explanation'') (\<lambda>g.
          Option.bind (field_str kvs ''time_complexity'') (\<lambda>h.
          Option.bind (field_str kvs ''space_complexity'') (\<lambda>i.
          Some \<lparr>original_score = a, refined_score = b, bugs = c, performance = d,
                improvements = e, optimized_code = f, explanation = g,
                time_complexity = h, space_complexity = i\<rparr>)))))))))
      | _ \<Rightarrow> None)"

definition CodeResponse_json :: "CodeResponse \<Rightarrow> json" where
  "CodeResponse_json r =
     JObj [(py ''original_score'', JInt (original_score r)),
           (py ''refined_score'', JInt (refined_score r)),
           (py ''bugs'', JStr (bugs r)),
           (py ''performance'', JStr (performance r)),
           (py ''improvements'', JArr (map JStr (improvements r))),
           (py ''optimized_code'', JStr (optimized_code r)),
           (py ''explanation'', JStr (explanation r)),
           (py ''time_complexity'', JStr (time_complexity r)),
           (py ''space_complexity'', JStr (space_complexity r))]"

definition error_response :: "HTTPException \<Rightarrow> http_response" where
  "error_response x =
     Response (status_code x) (JsonBody (JObj [(py ''detail'', JStr (py (detail x)))]))"

definition respond :: "py_runtime \<Rightarrow> handler_exit \<Rightarrow> http_response" where
  "respond rt x =
     (case x of
        Raised h \<Rightarrow> error_response h
      | Returned v \<Rightarrow>
          if renders rt v then Response 200 (JsonBody v) else internal_server_error)"

definition respond_CodeResponse :: "py_runtime \<Rightarrow> handler_exit \<Rightarrow> http_response" where
  "respond_CodeResponse rt x =
     (case x of
        Raised h \<Rightarrow> error_response h
      | Returned v \<Rightarrow>
          (case validate_CodeResponse v of
             None \<Rightarrow> internal_server_error
           | Some r \<Rightarrow> respond rt (Returned (CodeResponse_json r))))"

definition review_route :: "py_runtime \<Rightarrow> AsyncClient \<Rightarrow> (py_str \<times> json) list \<Rightarrow> http_response handled" where
  "review_route rt client payload =
     (case parse_CodeRequest payload of
        Inl errs \<Rightarrow> \<lparr>printed = [], outcome = reject rt errs\<rparr>
      | Inr request \<Rightarrow>
          (let h = review_code rt client request
           in \<lparr>printed = printed h, outcome = respond_CodeResponse rt (outcome h)\<rparr>))"

definition translate_route :: "py_runtime \<Rightarrow> AsyncClient \<Rightarrow> (py_str \<times> json) list \<Rightarrow> http_response handled" where
  "translate_route rt client payload =
     (case parse_TranslateRequest payload of
        Inl errs \<Rightarrow> \<lparr>printed = [], outcome = reject rt errs\<rparr>
      | Inr request \<Rightarrow>
          (let h = translate_code rt client request
           in \<lparr>printed = printed h, outcome = respond rt (outcome h)\<rparr>))"

section \<open>Start-up\<close>

text \<open>
  The module's top level: \<^verbatim>\<open>load_dotenv()\<close> adds the entries of a \<^verbatim>\<open>.env\<close> file to the
  environment (it is a parameter here: any change of the environment), the key is read,
  and \<^verbatim>\<open>not GROQ_API_KEY\<close> is true for \<^verbatim>\<open>None\<close> and for the empty string. The import
  either raises, and then no application exists, or leaves the one client both
  handlers use.
\<close>

definition py_not :: "string option \<Rightarrow> bool" where
  "py_not x = (case x of None \<Rightarrow> True | Some s \<Rightarrow> s = [])"

record module_globals =
  GROQ_API_KEY :: string
  client :: AsyncClient

definition startup :: "((string \<rightharpoonup> string) \<Rightarrow> (string \<rightharpoonup> string)) \<Rightarrow> (string \<rightharpoonup> string) \<Rightarrow> py_exception + module_globals" where
  "startup load_dotenv os_environ =
     (let key = (load_dotenv os_environ) ''GROQ_API_KEY''
      in if py_not key
         then Inl (PyException ''ValueError''
                ''CRITICAL: GROQ_API_KEY is not set in the .env file.'')
         else Inr \<lparr>GROQ_API_KEY = the key, client = AsyncClient (the key)\<rparr>)"

text \<open>A request served by the running application: the handlers use the module's client.\<close>

definition post_review :: "py_runtime \<Rightarrow> module_globals \<Rightarrow> (py_str \<times> json) list \<Rightarrow> http_response handled" where
  "post_review rt g payload = review_route rt (client g) payload"

definition post_translate :: "py_runtime \<Rightarrow> module_globals \<Rightarrow> (py_str \<times> json) list \<Rightarrow> http_response handled" where
  "post_translate rt g payload = translate_route rt (client g) payload"

section \<open>Reading responses and prompts\<close>

text \<open>Reading a field of a response body, to state what a response holds.\<close>

definition body_field :: "http_body \<Rightarrow> string \<Rightarrow> json option" where
  "body_field b k = (case b of JsonBody (JObj kvs) \<Rightarrow> map_of kvs (py k) | _ \<Rightarrow> None)"

definition text_fields :: "string list" where
  "text_fields = [''bugs'', ''performance'', ''optimized_code'', ''explanation'',
                  ''time_complexity'', ''space_complexity'']"

text \<open>The body the response model sends for a reply that has every declared field: the
  two coerced scores and the reply's own values of the seven other fields.\<close>

definition response_of_reply :: "int \<Rightarrow> int \<Rightarrow> (py_str \<times> json) list \<Rightarrow> json" where
  "response_of_reply i j kvs =
     JObj [(py ''original_score'', JInt i),
           (py ''refined_score'', JInt j),
           (py ''bugs'', JStr (the (field_str kvs ''bugs''))),
           (py ''performance'', JStr (the (field_str kvs ''performance''))),
           (py ''improvements'', JArr (map JStr (the (field_str_list kvs ''improvements'')))),
           (py ''optimized_code'', JStr (the (field_str kvs ''optimized_code''))),
           (py ''explanation'', JStr (the (field_str kvs ''explanation''))),
           (py ''time_complexity'', JStr (the (field_str kvs ''time_complexity''))),
           (py ''space_complexity'', JStr (the (field_str kvs ''space_complexity'')))]"

text \<open>The range 0 to 100 the specification gives for a score field of a response body.\<close>

definition score_in_range :: "http_body \<Rightarrow> string \<Rightarrow> bool" where
  "score_in_range b k = (case body_field b k of Some (JInt i) \<Rightarrow> 0 \<le> i \<and> i \<le> 100 | _ \<Rightarrow> False)"







section \<open>Concrete runs\<close>

text \<open>
  For the examples below: a runtime in which the service gives one fixed answer to every
  call, \<^verbatim>\<open>json.loads\<close> reads exactly the listed texts as the listed values and rejects every
  other text, \<^verbatim>\<open>int\<close> reads exactly the listed strings, and the encoder copes with every
  depth.
\<close>

definition table_loads :: "(py_str \<times> json) list \<Rightarrow> py_str \<Rightarrow> py_exception + json" where
  "table_loads tbl s =
     (case map_of tbl s of
        Some v \<Rightarrow> Inr v
      | None \<Rightarrow> Inl (PyException ''JSONDecodeError'' ''Expecting value: line 1 column 1 (char 0)''))"

definition table_int :: "(py_str \<times> int) list \<Rightarrow> py_str \<Rightarrow> py_exception + int" where
  "table_int tbl s =
     (case map_of tbl s of
        Some i \<Rightarrow> Inr i
      | None \<Rightarrow> Inl (PyException ''ValueError'' ''invalid literal for int() with base 10''))"

definition scripted :: "py_exception + chat_completion \<Rightarrow> (py_str \<times> json) list \<Rightarrow> (py_str \<times> int) list \<Rightarrow> py_runtime" where
  "scripted answer parses ints =
     \<lparr>chat_completions_create = (\<lambda>c call. answer),
      json_loads = table_loads parses,
      int_of_str = table_int ints,
      encodes_deep = (\<lambda>v. True)\<rparr>"

definition replies :: "string \<Rightarrow> py_exception + chat_completion" where
  "replies s = Inr \<lparr>choices = [Some (py s)]\<rparr>"

text \<open>A service that answers only a call made with the module's three fixed parameters,
  and refuses every other call.\<close>

definition picky :: "py_exception + chat_completion \<Rightarrow> AsyncClient \<Rightarrow> chat_call \<Rightarrow> py_exception + chat_completion" where
  "picky answer c call =
     (if model call = ''llama-3.3-70b-versatile'' \<and> temperature call = 1 / 10
         \<and> response_format call = [(''type'', ''json_object'')]
      then answer
      else Inl (PyException ''BadRequestError'' ''unknown model''))"

text \<open>A service that knows one key only.\<close>

definition keyed :: "string \<Rightarrow> py_exception + chat_completion \<Rightarrow> AsyncClient \<Rightarrow> chat_call \<Rightarrow> py_exception + chat_completion" where
  "keyed k answer c call =
     (if api_key c = k then answer
      else Inl (PyException ''AuthenticationError'' ''Invalid API Key''))"

definition review_payload :: "(py_str \<times> json) list" where
  "review_payload = [(py ''code'', JStr (py ''def f(x): return x+1''))]"

definition translate_payload :: "(py_str \<times> json) list" where
  "translate_payload =
     [(py ''code'', JStr (py ''def f(x): return x+1'')), (py ''target_language'', JStr (py ''Rust''))]"

definition review_request :: CodeRequest where
  "review_request = \<lparr>CodeRequest.code = py ''def f(x): return x+1''\<rparr>"

definition translate_request :: TranslateRequest where
  "translate_request =
     \<lparr>TranslateRequest.code = py ''def f(x): return x+1'', target_language = py ''Rust''\<rparr>"

definition detail_500 :: http_response where
  "detail_500 =
     Response 500 (JsonBody (JObj [(py ''detail'', JStr (py ''Heuristic analysis engine failed.''))]))"

text \<open>A reply whose \<^verbatim>\<open>original_score\<close> is a word and that has no \<^verbatim>\<open>refined_score\<close>, and
  what \<^verbatim>\<open>json.loads\<close> returns for it.\<close>

definition reply_high :: string where
  \<open>reply_high = ''{"original_score": "high", "bugs": "none"}''\<close>

definition parsed_high :: "(py_str \<times> json) list" where
  "parsed_high = [(py ''original_score'', JStr (py ''high'')), (py ''bugs'', JStr (py ''none''))]"

text \<open>A reply with every declared field and the original score 150, and what
  \<^verbatim>\<open>json.loads\<close> returns for it.\<close>

definition reply_150 :: string where
  \<open>reply_150 = ''{"original_score": 150, "refined_score": 100, "bugs": "none", '' @
     ''"performance": "fine", "improvements": [], "optimized_code": "x = 1", '' @
     ''"explanation": "", "time_complexity": "O(1)", "space_complexity": "O(1)"}''\<close>

definition parsed_150 :: "(py_str \<times> json) list" where
  "parsed_150 =
     [(py ''original_score'', JInt 150), (py ''refined_score'', JInt 100),
      (py ''bugs'', JStr (py ''none'')), (py ''performance'', JStr (py ''fine'')),
      (py ''improvements'', JArr []), (py ''optimized_code'', JStr (py ''x = 1'')),
      (py ''explanation'', JStr (py [])), (py ''time_complexity'', JStr (py ''O(1)'')),
      (py ''space_complexity'', JStr (py ''O(1)''))]"

text \<open>A reply that omits \<^verbatim>\<open>refined_score\<close> and adds a field \<^verbatim>\<open>confidence\<close> the response
  model does not declare; a reply that omits \<^verbatim>\<open>bugs\<close>; and what \<^verbatim>\<open>json.loads\<close> returns
  for them.\<close>

definition reply_omits_refined :: string where
  \<open>reply_omits_refined = ''{"original_score": 62, "bugs": "none", "performance": "fine", '' @
     ''"improvements": ["use a set"], "optimized_code": "x = 1", "explanation": "", '' @
     ''"time_complexity": "O(n)", "space_complexity": "O(1)", "confidence": "high"}''\<close>

definition parsed_omits_refined :: "(py_str \<times> json) list" where
  "parsed_omits_refined =
     [(py ''original_score'', JInt 62), (py ''bugs'', JStr (py ''none'')),
      (py ''performance'', JStr (py ''fine'')),
      (py ''improvements'', JArr [JStr (py ''use a set'')]),
      (py ''optimized_code'', JStr (py ''x = 1'')), (py ''explanation'', JStr (py [])),
      (py ''time_complexity'', JStr (py ''O(n)'')), (py ''space_complexity'', JStr (py ''O(1)'')),
      (py ''confidence'', JStr (py ''high''))]"

definition sent_omits_refined :: json where
  "sent_omits_refined =
     JObj [(py ''original_score'', JInt 62), (py ''refined_score'', JInt 0),
           (py ''bugs'', JStr (py ''none'')), (py ''performance'', JStr (py ''fine'')),
           (py ''improvements'', JArr [JStr (py ''use a set'')]),
           (py ''optimized_code'', JStr (py ''x = 1'')), (py ''explanation'', JStr (py [])),
           (py ''time_complexity'', JStr (py ''O(n)'')), (py ''space_complexity'', JStr (py ''O(1)''))]"

definition reply_omits_bugs :: string where
  \<open>reply_omits_bugs = ''{"original_score": 70, "refined_score": 98, "performance": "fine", '' @
     ''"improvements": [], "optimized_code": "x = 1", "explanation": "", '' @
     ''"time_complexity": "O(1)", "space_complexity": "O(1)"}''\<close>

definition parsed_omits_bugs :: "(py_str \<times> json) list" where
  "parsed_omits_bugs =
     [(py ''original_score'', JInt 70), (py ''refined_score'', JInt 98),
      (py ''performance'', JStr (py ''fine'')), (py ''improvements'', JArr []),
      (py ''optimized_code'', JStr (py ''x = 1'')), (py ''explanation'', JStr (py [])),
      (py ''time_complexity'', JStr (py ''O(1)'')), (py ''space_complexity'', JStr (py ''O(1)''))]"



definition reply_surrogate :: string where
  \<open>reply_surrogate = ''{"translated_code": "'' @ [CHR 0x5C] @ ''ud800"}''\<close>

definition parsed_surrogate :: "(py_str \<times> json) list" where
  "parsed_surrogate = [(py ''translated_code'', JStr [Surrogate 0xD800])]"


section \<open>Properties of the handlers\<close>

lemma py_eq [simp]: "py a = py b \<longleftrightarrow> a = b"
  by (simp add: py_def inj_map_eq_map inj_on_def)

lemma encodable_py [simp]: "encodable (py s)"
  by (simp add: encodable_def py_def list_all_iff)

lemma nesting_strs [simp]: "foldr max (map (nesting \<circ> JStr) xs) 0 = 0"
  by (induction xs) simp_all

lemma compliant_strs [simp]:
  "list_all json_compliant (map JStr xs) = list_all encodable xs"
  by (induction xs) simp_all

lemma and_then_Inl: "and_then (Inl e) f = Inl e"
  by (simp add: and_then_def)

lemma and_then_Inr: "and_then (Inr x) f = f x"
  by (simp add: and_then_def)

lemma and_then_eq_Inr:
  "and_then r f = Inr y \<longleftrightarrow> (\<exists>x. r = Inr x \<and> f x = Inr y)"
  by (cases r) (simp_all add: and_then_def)

lemma coerce_score_obj:
  "coerce_score rt k (JObj kvs) =
     (case py_int rt (dict_get kvs k (JInt 0)) of
        Inl e \<Rightarrow> Inl e
      | Inr i \<Rightarrow> Inr (JObj (AList.update k (JInt i) kvs)))"
  by (simp add: coerce_score_def py_get_def py_setitem_def and_then_def split: sum.splits)

lemma coerce_score_Inr:
  "coerce_score rt k d = Inr d' \<longleftrightarrow>
     (\<exists>kvs i. d = JObj kvs \<and> py_int rt (dict_get kvs k (JInt 0)) = Inr i
        \<and> d' = JObj (AList.update k (JInt i) kvs))"
  by (cases d) (auto simp: coerce_score_def py_get_def py_setitem_def and_then_def split: sum.splits)

lemma dict_get_update_other:
  "k \<noteq> k' \<Longrightarrow> dict_get (AList.update k v kvs) k' dflt = dict_get kvs k' dflt"
  by (simp add: dict_get_def update_conv')

lemma dict_get_update_same:
  "dict_get (AList.update k v kvs) k dflt = v"
  by (simp add: dict_get_def update_conv')

text \<open>The \<^verbatim>\<open>try\<close> block of the review handler returns exactly when the call returns, its
  first choice parses to a dict and both scores convert.\<close>

lemma review_try_Inr:
  "review_try rt c request = Inr v \<longleftrightarrow>
     (\<exists>response kvs i j.
        chat_completions_create rt c (review_call request) = Inr response
      \<and> loads_first_choice rt response = Inr (JObj kvs)
      \<and> py_int rt (dict_get kvs (py ''original_score'') (JInt 0)) = Inr i
      \<and> py_int rt (dict_get kvs (py ''refined_score'') (JInt 0)) = Inr j
      \<and> v = JObj (AList.update (py ''refined_score'') (JInt j)
                   (AList.update (py ''original_score'') (JInt i) kvs)))"
  unfolding review_try_def and_then_eq_Inr coerce_score_Inr
  by (auto simp: dict_get_update_other)

lemma review_code_failed:
  "review_try rt c request = Inl e \<Longrightarrow>
     review_code rt c request =
       \<lparr>printed = [''Error: '' @ exc_str e],
        outcome = Raised (HTTPException 500 ''Heuristic analysis engine failed.'')\<rparr>"
  by (simp add: review_code_def)

lemma review_code_returned:
  "review_try rt c request = Inr v \<Longrightarrow>
     review_code rt c request = \<lparr>printed = [], outcome = Returned v\<rparr>"
  by (simp add: review_code_def)

lemma review_route_valid:
  "parse_CodeRequest payload = Inr request \<Longrightarrow>
     review_route rt c payload =
       \<lparr>printed = printed (review_code rt c request),
        outcome = respond_CodeResponse rt (outcome (review_code rt c request))\<rparr>"
  by (simp add: review_route_def Let_def)

lemma review_route_failed:
  "parse_CodeRequest payload = Inr request \<Longrightarrow> review_try rt c request = Inl e \<Longrightarrow>
     review_route rt c payload =
       \<lparr>printed = [''Error: '' @ exc_str e], outcome = detail_500\<rparr>"
  by (simp add: review_route_valid review_code_failed respond_CodeResponse_def
      error_response_def detail_500_def)

lemma valid_review_payload: "parse_CodeRequest review_payload = Inr review_request"
  by (simp add: parse_CodeRequest_def required_str_def review_payload_def review_request_def)

lemma valid_translate_payload: "parse_TranslateRequest translate_payload = Inr translate_request"
  by (simp add: parse_TranslateRequest_def required_str_def translate_payload_def
      translate_request_def)

text \<open>
  C3. For every valid review request: if the \<^verbatim>\<open>try\<close> block fails (the model call raises,
  the reply is not parseable as JSON, or any other exception is raised in it), the
  response is exactly HTTP 500 with the body
  \<^verbatim>\<open>{"detail": "Heuristic analysis engine failed."}\<close>. The body is the same for every
  exception: the exception's text goes to the printed line only, never to the caller.
\<close>

theorem review_failure_is_fixed_500:
  assumes valid: "parse_CodeRequest payload = Inr request"
    and failure:
      "chat_completions_create rt c (review_call request) = Inl e
       \<or> (\<exists>response. chat_completions_create rt c (review_call request) = Inr response
              \<and> loads_first_choice rt response = Inl e)
       \<or> review_try rt c request = Inl e"
  shows "outcome (review_route rt c payload) =
           Response 500 (JsonBody (JObj [(py ''detail'', JStr (py ''Heuristic analysis engine failed.''))]))
         \<and> printed (review_route rt c payload) = [''Error: '' @ exc_str e]"
proof -
  from failure have "review_try rt c request = Inl e"
    by (auto simp: review_try_def and_then_def)
  with valid show ?thesis
    by (simp add: review_route_failed detail_500_def)
qed

text \<open>The service answers with text that is not JSON.\<close>

theorem review_failure_is_fixed_500_witness:
  "outcome (review_route (scripted (replies ''not json'') [] []) (AsyncClient ''gsk_1'') review_payload) =
           Response 500 (JsonBody (JObj [(py ''detail'', JStr (py ''Heuristic analysis engine failed.''))]))
   \<and> printed (review_route (scripted (replies ''not json'') [] []) (AsyncClient ''gsk_1'') review_payload)
       = [''Error: Expecting value: line 1 column 1 (char 0)'']"
proof -
  let ?rt = "scripted (replies ''not json'') [] []"
  have failure: "chat_completions_create ?rt (AsyncClient ''gsk_1'') (review_call review_request)
        = Inl (PyException ''JSONDecodeError'' ''Expecting value: line 1 column 1 (char 0)'')
       \<or> (\<exists>response. chat_completions_create ?rt (AsyncClient ''gsk_1'')
             (review_call review_request) = Inr response
              \<and> loads_first_choice ?rt response
                  = Inl (PyException ''JSONDecodeError'' ''Expecting value: line 1 column 1 (char 0)''))
       \<or> review_try ?rt (AsyncClient ''gsk_1'') review_request
            = Inl (PyException ''JSONDecodeError'' ''Expecting value: line 1 column 1 (char 0)'')"
    by (simp add: scripted_def replies_def loads_first_choice_def table_loads_def)
  from review_failure_is_fixed_500 [OF valid_review_payload failure] show ?thesis
    by simp
qed

lemma review_try_score_fails:
  assumes "chat_completions_create rt c (review_call request) = Inr response"
    and "loads_first_choice rt response = Inr (JObj kvs)"
    and "py_int rt (dict_get kvs (py ''original_score'') (JInt 0)) = Inl e
         \<or> py_int rt (dict_get kvs (py ''refined_score'') (JInt 0)) = Inl e"
  shows "\<exists>e'. review_try rt c request = Inl e'"
proof (cases "review_try rt c request")
  case (Inl e')
  then show ?thesis by blast
next
  case (Inr v)
  then show ?thesis
    using assms unfolding review_try_Inr by auto
qed

text \<open>
  C10. For every valid review request: if the model's JSON reply holds an
  \<^verbatim>\<open>original_score\<close> or a \<^verbatim>\<open>refined_score\<close> that \<^verbatim>\<open>int\<close> cannot convert, no 0 is put in its
  place: the response is HTTP 500 with the fixed detail. The default 0 is used for an
  absent key only, where the conversion is \<^verbatim>\<open>int(0)\<close>.
\<close>

theorem unconvertible_score_is_500:
  assumes valid: "parse_CodeRequest payload = Inr request"
    and answered: "chat_completions_create rt c (review_call request) = Inr response"
    and parsed: "loads_first_choice rt response = Inr (JObj kvs)"
    and present: "map_of kvs k = Some v"
    and score: "k = py ''original_score'' \<or> k = py ''refined_score''"
    and unconvertible: "py_int rt v = Inl e"
  shows "outcome (review_route rt c payload) =
           Response 500 (JsonBody (JObj [(py ''detail'', JStr (py ''Heuristic analysis engine failed.''))]))
         \<and> (map_of kvs k' = None \<longrightarrow> py_int rt (dict_get kvs k' (JInt 0)) = Inr 0)"
proof -
  from present have "dict_get kvs k (JInt 0) = v"
    by (simp add: dict_get_def)
  with unconvertible score
  have "py_int rt (dict_get kvs (py ''original_score'') (JInt 0)) = Inl e
         \<or> py_int rt (dict_get kvs (py ''refined_score'') (JInt 0)) = Inl e"
    by auto
  from review_try_score_fails [OF answered parsed this]
  obtain e' where "review_try rt c request = Inl e'" ..
  with valid have "outcome (review_route rt c payload) = detail_500"
    by (simp add: review_route_failed)
  then show ?thesis
    by (simp add: detail_500_def dict_get_def)
qed

text \<open>The reply gives \<^verbatim>\<open>"high"\<close> as the original score; \<^verbatim>\<open>int("high")\<close> raises.\<close>

theorem unconvertible_score_is_500_witness:
  "outcome (review_route (scripted (replies reply_high) [(py reply_high, JObj parsed_high)] [])
       (AsyncClient ''gsk_1'') review_payload) =
     Response 500 (JsonBody (JObj [(py ''detail'', JStr (py ''Heuristic analysis engine failed.''))]))
   \<and> py_int (scripted (replies reply_high) [(py reply_high, JObj parsed_high)] [])
         (dict_get parsed_high (py ''refined_score'') (JInt 0)) = Inr 0"
proof -
  let ?rt = "scripted (replies reply_high) [(py reply_high, JObj parsed_high)] []"
  have answered: "chat_completions_create ?rt (AsyncClient ''gsk_1'') (review_call review_request)
      = Inr \<lparr>choices = [Some (py reply_high)]\<rparr>"
    by (simp add: scripted_def replies_def)
  have parsed: "loads_first_choice ?rt \<lparr>choices = [Some (py reply_high)]\<rparr> = Inr (JObj parsed_high)"
    by (simp add: scripted_def loads_first_choice_def table_loads_def)
  have present: "map_of parsed_high (py ''original_score'') = Some (JStr (py ''high''))"
    by (simp add: parsed_high_def)
  have score: "py ''original_score'' = py ''original_score'' \<or> py ''original_score'' = py ''refined_score''"
    by simp
  have unconvertible: "py_int ?rt (JStr (py ''high''))
      = Inl (PyException ''ValueError'' ''invalid literal for int() with base 10'')"
    by (simp add: scripted_def table_int_def)
  have absent: "map_of parsed_high (py ''refined_score'') = None"
    by (simp add: parsed_high_def)
  from unconvertible_score_is_500 [OF valid_review_payload answered parsed present score unconvertible,
      of "py ''refined_score''"] absent
  show ?thesis by blast
qed

lemma translate_try_failed:
  "translate_try rt c request = Inl e \<Longrightarrow>
     translate_code rt c request =
       \<lparr>printed = [],
        outcome = Returned (JObj [(py ''translated_code'',
                     JStr (py (''// Translation error: '' @ exc_str e)))])\<rparr>"
  by (simp add: translate_code_def)

lemma translate_try_returned:
  "translate_try rt c request = Inr v \<Longrightarrow>
     translate_code rt c request = \<lparr>printed = [], outcome = Returned v\<rparr>"
  by (simp add: translate_code_def)

lemma translate_route_valid:
  "parse_TranslateRequest payload = Inr request \<Longrightarrow>
     translate_route rt c payload =
       \<lparr>printed = printed (translate_code rt c request),
        outcome = respond rt (outcome (translate_code rt c request))\<rparr>"
  by (simp add: translate_route_def Let_def)

lemma comment_renders:
  "renders rt (JObj [(py ''translated_code'', JStr (py s))])"
  by (simp add: renders_def)

text \<open>
  C4. For every valid translate request on which the model call or the parsing of its
  reply raises, the handler does not raise: it returns, and the response is HTTP 200
  whose \<^verbatim>\<open>translated_code\<close> is \<^verbatim>\<open>// Translation error: \<close> followed by the message of the
  exception.
\<close>

theorem translate_failure_is_absorbed:
  assumes valid: "parse_TranslateRequest payload = Inr request"
    and failure:
      "chat_completions_create rt c (translate_call request) = Inl e
       \<or> (\<exists>response. chat_completions_create rt c (translate_call request) = Inr response
              \<and> loads_first_choice rt response = Inl e)"
  shows "outcome (translate_code rt c request) =
           Returned (JObj [(py ''translated_code'', JStr (py (''// Translation error: '' @ exc_str e)))])
         \<and> outcome (translate_route rt c payload) =
           Response 200 (JsonBody (JObj [(py ''translated_code'',
              JStr (py (''// '' @ ''Translation error:'' @ '' '' @ exc_str e)))]))"
proof -
  from failure have "translate_try rt c request = Inl e"
    by (auto simp: translate_try_def and_then_def)
  then have "translate_code rt c request =
       \<lparr>printed = [],
        outcome = Returned (JObj [(py ''translated_code'',
                     JStr (py (''// Translation error: '' @ exc_str e)))])\<rparr>"
    by (rule translate_try_failed)
  with valid show ?thesis
    by (simp add: translate_route_valid respond_def comment_renders)
qed

text \<open>The service cannot be reached.\<close>

theorem translate_failure_is_absorbed_witness:
  "outcome (translate_code (scripted (Inl (PyException ''APIConnectionError'' ''Connection error.'')) [] [])
       (AsyncClient ''gsk_1'') translate_request) =
     Returned (JObj [(py ''translated_code'', JStr (py ''// Translation error: Connection error.''))])
   \<and> outcome (translate_route (scripted (Inl (PyException ''APIConnectionError'' ''Connection error.'')) [] [])
       (AsyncClient ''gsk_1'') translate_payload) =
     Response 200 (JsonBody (JObj [(py ''translated_code'', JStr (py ''// Translation error: Connection error.''))]))"
proof -
  let ?rt = "scripted (Inl (PyException ''APIConnectionError'' ''Connection error.'')) [] []"
  have failure: "chat_completions_create ?rt (AsyncClient ''gsk_1'') (translate_call translate_request)
        = Inl (PyException ''APIConnectionError'' ''Connection error.'')
       \<or> (\<exists>response. chat_completions_create ?rt (AsyncClient ''gsk_1'') (translate_call translate_request) = Inr response
              \<and> loads_first_choice ?rt response = Inl (PyException ''APIConnectionError'' ''Connection error.''))"
    by (simp add: scripted_def)
  from translate_failure_is_absorbed [OF valid_translate_payload failure] show ?thesis
    by simp
qed

text \<open>
  C8. The call either handler makes to the completion service carries the model
  identifier, the temperature 0.1 and the response format \<^verbatim>\<open>{"type": "json_object"}\<close>,
  the same for both handlers and whatever the request holds: what a service answers to
  the calls that carry these three parameters, however it treats every other call, is
  what the \<^verbatim>\<open>try\<close> block of either handler goes on with.
\<close>

theorem completion_parameters_are_fixed:
  assumes "\<forall>call. model call = ''llama-3.3-70b-versatile'' \<and> temperature call = 1 / 10
              \<and> response_format call = [(''type'', ''json_object'')]
            \<longrightarrow> chat_completions_create rt c call = answer"
  shows "review_try rt c request =
           and_then answer (\<lambda>response.
           and_then (loads_first_choice rt response) (\<lambda>ai_data.
           and_then (coerce_score rt (py ''original_score'') ai_data) (\<lambda>ai_data.
           coerce_score rt (py ''refined_score'') ai_data)))
       \<and> translate_try rt c request' =
           and_then answer (\<lambda>response. loads_first_choice rt response)
       \<and> model (review_call request) = ''llama-3.3-70b-versatile''
       \<and> temperature (review_call request) = 1 / 10
       \<and> response_format (review_call request) = [(''type'', ''json_object'')]
       \<and> model (translate_call request') = ''llama-3.3-70b-versatile''
       \<and> temperature (translate_call request') = 1 / 10
       \<and> response_format (translate_call request') = [(''type'', ''json_object'')]"
proof -
  have review: "chat_completions_create rt c (review_call request) = answer"
    using assms by (simp add: review_call_def)
  have translate: "chat_completions_create rt c (translate_call request') = answer"
    using assms by (simp add: translate_call_def)
  show ?thesis
    by (simp add: review_try_def translate_try_def review translate)
       (simp add: review_call_def translate_call_def)
qed

text \<open>The service is busy for every call with the three parameters and does not know any
  other model: both handlers meet the busy service.\<close>

theorem completion_parameters_are_fixed_witness:
  "review_try ((scripted (replies ''{}'') [] [])
       \<lparr>chat_completions_create := picky (Inl (PyException ''RateLimitError'' ''Rate limit reached''))\<rparr>)
     (AsyncClient ''gsk_1'') review_request
     = Inl (PyException ''RateLimitError'' ''Rate limit reached'')
   \<and> translate_try ((scripted (replies ''{}'') [] [])
       \<lparr>chat_completions_create := picky (Inl (PyException ''RateLimitError'' ''Rate limit reached''))\<rparr>)
     (AsyncClient ''gsk_1'') translate_request
     = Inl (PyException ''RateLimitError'' ''Rate limit reached'')"
proof -
  let ?busy = "Inl (PyException ''RateLimitError'' ''Rate limit reached'') :: py_exception + chat_completion"
  let ?rt = "(scripted (replies ''{}'') [] []) \<lparr>chat_completions_create := picky ?busy\<rparr>"
  have served: "\<forall>call. model call = ''llama-3.3-70b-versatile'' \<and> temperature call = 1 / 10
              \<and> response_format call = [(''type'', ''json_object'')]
            \<longrightarrow> chat_completions_create ?rt (AsyncClient ''gsk_1'') call = ?busy"
    by (simp add: picky_def)
  from completion_parameters_are_fixed [OF served, of review_request translate_request]
  show ?thesis
    by (simp add: and_then_Inl)
qed

lemma renders_update_service [simp]:
  "renders (rt\<lparr>chat_completions_create := f\<rparr>) v = renders rt v"
  by (simp add: renders_def)

lemma reject_update_service [simp]:
  "reject (rt\<lparr>chat_completions_create := f\<rparr>) errs = reject rt errs"
  by (simp add: reject_def)










lemma field_int_update_same: "field_int (AList.update (py k) (JInt i) kvs) k = Some i"
  by (simp add: field_int_def update_conv')

lemma field_int_update_other:
  "k \<noteq> py k' \<Longrightarrow> field_int (AList.update k v kvs) k' = field_int kvs k'"
  by (simp add: field_int_def update_conv')

lemma field_str_update_other:
  "k \<noteq> py k' \<Longrightarrow> field_str (AList.update k v kvs) k' = field_str kvs k'"
  by (simp add: field_str_def update_conv')

lemma field_str_list_update_other:
  "k \<noteq> py k' \<Longrightarrow> field_str_list (AList.update k v kvs) k' = field_str_list kvs k'"
  by (simp add: field_str_list_def update_conv')

lemma nesting_CodeResponse: "nesting (CodeResponse_json r) \<le> 2"
  by (simp add: CodeResponse_json_def)

lemma respond_CodeResponse_Returned:
  "respond_CodeResponse rt (Returned v) =
     (case validate_CodeResponse v of
        None \<Rightarrow> Response 500 (TextBody ''Internal Server Error'')
      | Some r \<Rightarrow>
          if json_compliant (CodeResponse_json r)
          then Response 200 (JsonBody (CodeResponse_json r))
          else Response 500 (TextBody ''Internal Server Error''))"
  by (simp add: respond_CodeResponse_def respond_def renders_def nesting_CodeResponse
      internal_server_error_def split: option.split)

text \<open>What the response model makes of the object the handler returns.\<close>

lemma validate_coerced:
  "validate_CodeResponse
      (JObj (AList.update (py ''refined_score'') (JInt j)
               (AList.update (py ''original_score'') (JInt i) kvs))) =
     (if list_all (\<lambda>k. field_str kvs k \<noteq> None) text_fields
          \<and> field_str_list kvs ''improvements'' \<noteq> None
      then Some \<lparr>original_score = i, refined_score = j,
                 bugs = the (field_str kvs ''bugs''),
                 performance = the (field_str kvs ''performance''),
                 improvements = the (field_str_list kvs ''improvements''),
                 optimized_code = the (field_str kvs ''optimized_code''),
                 explanation = the (field_str kvs ''explanation''),
                 time_complexity = the (field_str kvs ''time_complexity''),
                 space_complexity = the (field_str kvs ''space_complexity'')\<rparr>
      else None)"
  by (simp add: validate_CodeResponse_def field_int_update_same field_int_update_other
      field_str_update_other field_str_list_update_other text_fields_def
      split: Option.bind_split)

lemma review_route_200:
  assumes "outcome (review_route rt c payload) = Response 200 b"
  shows "\<exists>request v r. parse_CodeRequest payload = Inr request
           \<and> review_try rt c request = Inr v
           \<and> validate_CodeResponse v = Some r
           \<and> b = JsonBody (CodeResponse_json r)"
proof (cases "parse_CodeRequest payload")
  case (Inl errs)
  with assms show ?thesis
    by (simp add: review_route_def reject_def internal_server_error_def split: if_splits)
next
  case (Inr request)
  show ?thesis
  proof (cases "review_try rt c request")
    case (Inl e)
    with Inr assms show ?thesis
      by (simp add: review_route_failed detail_500_def)
  next
    case ok: (Inr v)
    with Inr assms
    have "respond_CodeResponse rt (Returned v) = Response 200 b"
      by (simp add: review_route_valid review_code_returned)
    then have "\<exists>r. validate_CodeResponse v = Some r \<and> b = JsonBody (CodeResponse_json r)"
      by (simp add: respond_CodeResponse_Returned split: option.splits if_splits)
    with Inr ok show ?thesis
      by blast
  qed
qed

text \<open>
  C1, as the code has it. On every 200 response of the review operation both scores are
  integers: what \<^verbatim>\<open>int\<close> gives for the values of the model's reply, and 0 for a key the
  reply omits. No range is enforced on them.
\<close>

theorem review_scores_are_integers:
  assumes "outcome (review_route rt c payload) = Response 200 b"
  shows "\<exists>request response kvs i j.
           parse_CodeRequest payload = Inr request
         \<and> chat_completions_create rt c (review_call request) = Inr response
         \<and> loads_first_choice rt response = Inr (JObj kvs)
         \<and> py_int rt (dict_get kvs (py ''original_score'') (JInt 0)) = Inr i
         \<and> py_int rt (dict_get kvs (py ''refined_score'') (JInt 0)) = Inr j
         \<and> body_field b ''original_score'' = Some (JInt i)
         \<and> body_field b ''refined_score'' = Some (JInt j)
         \<and> (map_of kvs (py ''original_score'') = None \<longrightarrow> i = 0)
         \<and> (map_of kvs (py ''refined_score'') = None \<longrightarrow> j = 0)"
proof -
  from review_route_200 [OF assms]
  obtain request v r where valid: "parse_CodeRequest payload = Inr request"
    and returned: "review_try rt c request = Inr v"
    and validated: "validate_CodeResponse v = Some r"
    and b: "b = JsonBody (CodeResponse_json r)"
    by blast
  from returned obtain response kvs i j
    where answered: "chat_completions_create rt c (review_call request) = Inr response"
      and parsed: "loads_first_choice rt response = Inr (JObj kvs)"
      and i: "py_int rt (dict_get kvs (py ''original_score'') (JInt 0)) = Inr i"
      and j: "py_int rt (dict_get kvs (py ''refined_score'') (JInt 0)) = Inr j"
      and v: "v = JObj (AList.update (py ''refined_score'') (JInt j)
                   (AList.update (py ''original_score'') (JInt i) kvs))"
    unfolding review_try_Inr by blast
  from validated v have "original_score r = i" and "refined_score r = j"
    by (auto simp: validate_coerced split: if_splits)
  with b have fields: "body_field b ''original_score'' = Some (JInt i)"
      "body_field b ''refined_score'' = Some (JInt j)"
    by (simp_all add: body_field_def CodeResponse_json_def)
  have i0: "map_of kvs (py ''original_score'') = None \<longrightarrow> i = 0"
    using i by (auto simp: dict_get_def)
  have j0: "map_of kvs (py ''refined_score'') = None \<longrightarrow> j = 0"
    using j by (auto simp: dict_get_def)
  from valid answered parsed i j fields i0 j0 show ?thesis
    by (intro exI conjI)
qed

lemma run_150:
  "outcome (review_route (scripted (replies reply_150) [(py reply_150, JObj parsed_150)] [])
       (AsyncClient ''gsk_1'') review_payload)
   = Response 200 (JsonBody (JObj parsed_150))"
  by (simp add: review_route_valid [OF valid_review_payload]
      review_code_def review_try_def and_then_def scripted_def replies_def
      loads_first_choice_def table_loads_def coerce_score_obj dict_get_def parsed_150_def
      respond_CodeResponse_Returned validate_CodeResponse_def field_int_def field_str_def
      field_str_list_def CodeResponse_json_def)

text \<open>The model scores the code 150: the response is 200 and carries 150.\<close>

theorem review_score_150_is_returned:
  "status (outcome (review_route (scripted (replies reply_150) [(py reply_150, JObj parsed_150)] [])
       (AsyncClient ''gsk_1'') review_payload)) = 200
   \<and> body_field (body (outcome (review_route (scripted (replies reply_150) [(py reply_150, JObj parsed_150)] [])
       (AsyncClient ''gsk_1'') review_payload))) ''original_score'' = Some (JInt 150)
   \<and> \<not> score_in_range (body (outcome (review_route (scripted (replies reply_150) [(py reply_150, JObj parsed_150)] [])
       (AsyncClient ''gsk_1'') review_payload))) ''original_score''"
  unfolding run_150
  by (simp add: body_field_def score_in_range_def parsed_150_def)

lemma run_omits_refined:
  "outcome (review_route (scripted (replies reply_omits_refined)
        [(py reply_omits_refined, JObj parsed_omits_refined)] [])
       (AsyncClient ''gsk_1'') review_payload)
   = Response 200 (JsonBody sent_omits_refined)"
  by (simp add: review_route_valid [OF valid_review_payload]
      review_code_def review_try_def and_then_def scripted_def replies_def
      loads_first_choice_def table_loads_def coerce_score_obj dict_get_def
      parsed_omits_refined_def sent_omits_refined_def
      respond_CodeResponse_Returned validate_CodeResponse_def field_int_def field_str_def
      field_str_list_def CodeResponse_json_def)

text \<open>The reply omits \<^verbatim>\<open>refined_score\<close>; the response is 200.\<close>

theorem review_scores_are_integers_witness:
  "\<exists>request response kvs i j.
      parse_CodeRequest review_payload = Inr request
    \<and> chat_completions_create (scripted (replies reply_omits_refined)
          [(py reply_omits_refined, JObj parsed_omits_refined)] []) (AsyncClient ''gsk_1'')
          (review_call request) = Inr response
    \<and> loads_first_choice (scripted (replies reply_omits_refined)
          [(py reply_omits_refined, JObj parsed_omits_refined)] []) response = Inr (JObj kvs)
    \<and> py_int (scripted (replies reply_omits_refined)
          [(py reply_omits_refined, JObj parsed_omits_refined)] [])
          (dict_get kvs (py ''original_score'') (JInt 0)) = Inr i
    \<and> py_int (scripted (replies reply_omits_refined)
          [(py reply_omits_refined, JObj parsed_omits_refined)] [])
          (dict_get kvs (py ''refined_score'') (JInt 0)) = Inr j
    \<and> body_field (JsonBody sent_omits_refined) ''original_score'' = Some (JInt i)
    \<and> body_field (JsonBody sent_omits_refined) ''refined_score'' = Some (JInt j)
    \<and> (map_of kvs (py ''original_score'') = None \<longrightarrow> i = 0)
    \<and> (map_of kvs (py ''refined_score'') = None \<longrightarrow> j = 0)"
  by (rule review_scores_are_integers [OF run_omits_refined])

text \<open>
  C5, as the code has it. When the reply is a JSON object whose scores convert, the
  handler checks nothing else: it returns the reply with the two scores stored and
  every other key as the reply has it, present or absent. The route then applies the
  declared response model: if the reply has the six string fields and the list of
  strings, and none of these strings holds a lone surrogate, the response is 200 and its
  body is the nine declared fields, so a key outside the model is not sent; otherwise
  the response is a plain 500.
\<close>

theorem review_reply_meets_response_model:
  assumes valid: "parse_CodeRequest payload = Inr request"
    and answered: "chat_completions_create rt c (review_call request) = Inr response"
    and parsed: "loads_first_choice rt response = Inr (JObj kvs)"
    and original: "py_int rt (dict_get kvs (py ''original_score'') (JInt 0)) = Inr i"
    and refined: "py_int rt (dict_get kvs (py ''refined_score'') (JInt 0)) = Inr j"
  shows "outcome (review_code rt c request) =
           Returned (JObj (AList.update (py ''refined_score'') (JInt j)
                       (AList.update (py ''original_score'') (JInt i) kvs)))
       \<and> (k \<noteq> py ''original_score'' \<and> k \<noteq> py ''refined_score'' \<longrightarrow>
            map_of (AList.update (py ''refined_score'') (JInt j)
                       (AList.update (py ''original_score'') (JInt i) kvs)) k = map_of kvs k)
       \<and> outcome (review_route rt c payload) =
           (if list_all (\<lambda>k. field_str kvs k \<noteq> None) text_fields
               \<and> field_str_list kvs ''improvements'' \<noteq> None
               \<and> json_compliant (response_of_reply i j kvs)
            then Response 200 (JsonBody (response_of_reply i j kvs))
            else Response 500 (TextBody ''Internal Server Error''))"
proof -
  let ?v = "JObj (AList.update (py ''refined_score'') (JInt j)
                       (AList.update (py ''original_score'') (JInt i) kvs))"
  from answered parsed original refined have returned: "review_try rt c request = Inr ?v"
    unfolding review_try_Inr by blast
  then have handler: "outcome (review_code rt c request) = Returned ?v"
    by (simp add: review_code_returned)
  have kept: "k \<noteq> py ''original_score'' \<and> k \<noteq> py ''refined_score'' \<longrightarrow>
            map_of (AList.update (py ''refined_score'') (JInt j)
                       (AList.update (py ''original_score'') (JInt i) kvs)) k = map_of kvs k"
    by (simp add: update_conv')
  from valid handler
  have "outcome (review_route rt c payload) = respond_CodeResponse rt (Returned ?v)"
    by (simp add: review_route_valid)
  also have "\<dots> = (if list_all (\<lambda>k. field_str kvs k \<noteq> None) text_fields
               \<and> field_str_list kvs ''improvements'' \<noteq> None
               \<and> json_compliant (response_of_reply i j kvs)
            then Response 200 (JsonBody (response_of_reply i j kvs))
            else Response 500 (TextBody ''Internal Server Error''))"
    by (simp add: respond_CodeResponse_Returned validate_coerced CodeResponse_json_def
        response_of_reply_def)
  finally show ?thesis
    using handler kept by blast
qed

text \<open>The reply omits \<^verbatim>\<open>refined_score\<close> and carries the undeclared \<^verbatim>\<open>confidence\<close>: the handler
  returns it with \<^verbatim>\<open>confidence\<close>, the 200 body is the nine declared fields.\<close>

theorem review_reply_meets_response_model_witness:
  "outcome (review_code (scripted (replies reply_omits_refined)
        [(py reply_omits_refined, JObj parsed_omits_refined)] [])
       (AsyncClient ''gsk_1'') review_request) =
     Returned (JObj (AList.update (py ''refined_score'') (JInt 0)
                 (AList.update (py ''original_score'') (JInt 62) parsed_omits_refined)))
   \<and> map_of (AList.update (py ''refined_score'') (JInt 0)
                 (AList.update (py ''original_score'') (JInt 62) parsed_omits_refined))
         (py ''confidence'')
       = map_of parsed_omits_refined (py ''confidence'')
   \<and> outcome (review_route (scripted (replies reply_omits_refined)
        [(py reply_omits_refined, JObj parsed_omits_refined)] [])
       (AsyncClient ''gsk_1'') review_payload) =
     Response 200 (JsonBody sent_omits_refined)"
proof -
  let ?rt = "scripted (replies reply_omits_refined)
        [(py reply_omits_refined, JObj parsed_omits_refined)] []"
  have answered: "chat_completions_create ?rt (AsyncClient ''gsk_1'') (review_call review_request)
      = Inr \<lparr>choices = [Some (py reply_omits_refined)]\<rparr>"
    by (simp add: scripted_def replies_def)
  have parsed: "loads_first_choice ?rt \<lparr>choices = [Some (py reply_omits_refined)]\<rparr>
      = Inr (JObj parsed_omits_refined)"
    by (simp add: scripted_def loads_first_choice_def table_loads_def)
  have original: "py_int ?rt (dict_get parsed_omits_refined (py ''original_score'') (JInt 0)) = Inr 62"
    by (simp add: dict_get_def parsed_omits_refined_def)
  have refined: "py_int ?rt (dict_get parsed_omits_refined (py ''refined_score'') (JInt 0)) = Inr 0"
    by (simp add: dict_get_def parsed_omits_refined_def)
  have sent: "response_of_reply 62 0 parsed_omits_refined = sent_omits_refined"
    by (simp add: response_of_reply_def field_str_def field_str_list_def
        parsed_omits_refined_def sent_omits_refined_def)
  have declared: "list_all (\<lambda>k. field_str parsed_omits_refined k \<noteq> None) text_fields
      \<and> field_str_list parsed_omits_refined ''improvements'' \<noteq> None
      \<and> json_compliant sent_omits_refined"
    by (simp add: text_fields_def field_str_def field_str_list_def parsed_omits_refined_def
        sent_omits_refined_def)
  from review_reply_meets_response_model [OF valid_review_payload answered parsed original refined,
      of "py ''confidence''"] declared sent
  show ?thesis
    by simp
qed

lemma run_omits_bugs:
  "review_try (scripted (replies reply_omits_bugs) [(py reply_omits_bugs, JObj parsed_omits_bugs)] [])
       (AsyncClient ''gsk_1'') review_request
   = Inr (JObj parsed_omits_bugs)"
  by (simp add: review_try_def and_then_def scripted_def replies_def
      loads_first_choice_def table_loads_def coerce_score_obj dict_get_def
      parsed_omits_bugs_def)

text \<open>The reply omits \<^verbatim>\<open>bugs\<close>: the handler returns it as it is, and the operation fails
  with a plain 500.\<close>

theorem review_without_bugs_fails:
  "map_of parsed_omits_bugs (py ''bugs'') = None
   \<and> outcome (review_code (scripted (replies reply_omits_bugs)
         [(py reply_omits_bugs, JObj parsed_omits_bugs)] [])
       (AsyncClient ''gsk_1'') review_request)
      = Returned (JObj parsed_omits_bugs)
   \<and> outcome (review_route (scripted (replies reply_omits_bugs)
         [(py reply_omits_bugs, JObj parsed_omits_bugs)] [])
       (AsyncClient ''gsk_1'') review_payload)
      = Response 500 (TextBody ''Internal Server Error'')"
proof -
  have "validate_CodeResponse (JObj parsed_omits_bugs) = None"
    by (simp add: validate_CodeResponse_def field_int_def field_str_def parsed_omits_bugs_def)
  then have "respond_CodeResponse rt (Returned (JObj parsed_omits_bugs))
      = Response 500 (TextBody ''Internal Server Error'')" for rt
    by (simp add: respond_CodeResponse_Returned)
  moreover have "map_of parsed_omits_bugs (py ''bugs'') = None"
    by (simp add: parsed_omits_bugs_def)
  ultimately show ?thesis
    by (simp add: review_route_valid [OF valid_review_payload]
        review_code_returned [OF run_omits_bugs])
qed




text \<open>The model answers with a string that is one lone surrogate: the handler returns
  it, and it cannot be sent.\<close>

lemma translate_surrogate_reply_is_500:
  "outcome (translate_route (scripted (replies reply_surrogate)
       [(py reply_surrogate, JObj parsed_surrogate)] [])
       (AsyncClient ''gsk_1'') translate_payload) = Response 500 (TextBody ''Internal Server Error'')"
proof -
  let ?rt = "scripted (replies reply_surrogate) [(py reply_surrogate, JObj parsed_surrogate)] []"
  have run: "translate_try ?rt (AsyncClient ''gsk_1'') translate_request = Inr (JObj parsed_surrogate)"
    by (simp add: translate_try_def and_then_def scripted_def replies_def
        loads_first_choice_def table_loads_def)
  have handler: "outcome (translate_code ?rt (AsyncClient ''gsk_1'') translate_request)
      = Returned (JObj parsed_surrogate)"
    by (simp add: translate_try_returned [OF run])
  have "\<not> renders ?rt (JObj parsed_surrogate)"
    by (simp add: renders_def parsed_surrogate_def encodable_def)
  then show ?thesis
    by (simp add: translate_route_valid [OF valid_translate_payload] handler respond_def
        internal_server_error_def)
qed

lemma py_int_update_service [simp]:
  "py_int (rt\<lparr>chat_completions_create := f\<rparr>) v = py_int rt v"
  by (induction rt v rule: py_int.induct) simp_all

lemma loads_update_service [simp]:
  "loads_first_choice (rt\<lparr>chat_completions_create := f\<rparr>) response = loads_first_choice rt response"
  by (simp add: loads_first_choice_def split: list.split option.split)

lemma coerce_update_service [simp]:
  "coerce_score (rt\<lparr>chat_completions_create := f\<rparr>) k d = coerce_score rt k d"
  by (simp add: coerce_score_def)

lemma review_try_agree:
  "f c (review_call request) = chat_completions_create rt c (review_call request) \<Longrightarrow>
     review_try (rt\<lparr>chat_completions_create := f\<rparr>) c request = review_try rt c request"
  by (simp add: review_try_def)

lemma translate_try_agree:
  "f c (translate_call request) = chat_completions_create rt c (translate_call request) \<Longrightarrow>
     translate_try (rt\<lparr>chat_completions_create := f\<rparr>) c request = translate_try rt c request"
  by (simp add: translate_try_def)

lemma respond_update_service [simp]:
  "respond (rt\<lparr>chat_completions_create := f\<rparr>) x = respond rt x"
  by (simp add: respond_def split: handler_exit.split)

lemma respond_CodeResponse_update_service [simp]:
  "respond_CodeResponse (rt\<lparr>chat_completions_create := f\<rparr>) x = respond_CodeResponse rt x"
  by (simp add: respond_CodeResponse_def split: handler_exit.split option.split)

text \<open>A route sees of the service only its answers to the client it is given.\<close>

lemma review_route_agree:
  "\<forall>call. f c call = chat_completions_create rt c call \<Longrightarrow>
     review_route (rt\<lparr>chat_completions_create := f\<rparr>) c payload = review_route rt c payload"
  by (simp add: review_route_def review_code_def review_try_agree Let_def split: sum.split)

lemma translate_route_agree:
  "\<forall>call. f c call = chat_completions_create rt c call \<Longrightarrow>
     translate_route (rt\<lparr>chat_completions_create := f\<rparr>) c payload = translate_route rt c payload"
  by (simp add: translate_route_def translate_code_def translate_try_agree Let_def split: sum.split)

text \<open>
  C9, as the code has it. Start-up reads the key after \<^verbatim>\<open>load_dotenv()\<close> has changed the
  environment. If the key is then absent or empty, the import raises \<^verbatim>\<open>ValueError\<close> and
  no application exists; otherwise it builds one client with that key. Both operations
  reach the service through that client only: what the service does for any other
  client makes no difference to them, and a failure the service reports to that client
  is the failure each of them handles.
\<close>

theorem startup_needs_nonempty_key:
  "startup load_dotenv os_environ =
     (case load_dotenv os_environ ''GROQ_API_KEY'' of
        None \<Rightarrow> Inl (PyException ''ValueError''
                 ''CRITICAL: GROQ_API_KEY is not set in the .env file.'')
      | Some k \<Rightarrow>
          if k = [] then Inl (PyException ''ValueError''
                 ''CRITICAL: GROQ_API_KEY is not set in the .env file.'')
          else Inr \<lparr>GROQ_API_KEY = k, client = AsyncClient k\<rparr>)
   \<and> (startup load_dotenv os_environ = Inr g
        \<and> (\<forall>call. f (AsyncClient (GROQ_API_KEY g)) call
                   = chat_completions_create rt (AsyncClient (GROQ_API_KEY g)) call) \<longrightarrow>
        post_review (rt\<lparr>chat_completions_create := f\<rparr>) g payload = post_review rt g payload
      \<and> post_translate (rt\<lparr>chat_completions_create := f\<rparr>) g payload'
          = post_translate rt g payload')
   \<and> (startup load_dotenv os_environ = Inr g
        \<and> (\<forall>call. chat_completions_create rt (AsyncClient (GROQ_API_KEY g)) call = Inl e)
        \<and> parse_CodeRequest payload = Inr request
        \<and> parse_TranslateRequest payload' = Inr request' \<longrightarrow>
        printed (post_review rt g payload) = [''Error: '' @ exc_str e]
      \<and> outcome (post_translate rt g payload') =
          Response 200 (JsonBody (JObj [(py ''translated_code'',
             JStr (py (''// Translation error: '' @ exc_str e)))])))"
proof -
  have start: "startup load_dotenv os_environ =
     (case load_dotenv os_environ ''GROQ_API_KEY'' of
        None \<Rightarrow> Inl (PyException ''ValueError''
                 ''CRITICAL: GROQ_API_KEY is not set in the .env file.'')
      | Some k \<Rightarrow>
          if k = [] then Inl (PyException ''ValueError''
                 ''CRITICAL: GROQ_API_KEY is not set in the .env file.'')
          else Inr \<lparr>GROQ_API_KEY = k, client = AsyncClient k\<rparr>)"
    by (simp add: startup_def py_not_def Let_def split: option.split)
  have handle: "client g = AsyncClient (GROQ_API_KEY g)"
    if "startup load_dotenv os_environ = Inr g"
    using that unfolding start by (auto split: option.splits if_splits)
  have only: "post_review (rt\<lparr>chat_completions_create := f\<rparr>) g payload = post_review rt g payload
      \<and> post_translate (rt\<lparr>chat_completions_create := f\<rparr>) g payload'
          = post_translate rt g payload'"
    if "startup load_dotenv os_environ = Inr g"
      and "\<forall>call. f (AsyncClient (GROQ_API_KEY g)) call
                   = chat_completions_create rt (AsyncClient (GROQ_API_KEY g)) call"
    using that(2) handle [OF that(1)]
    by (simp add: post_review_def post_translate_def review_route_agree translate_route_agree)
  have used: "printed (post_review rt g payload) = [''Error: '' @ exc_str e]
      \<and> outcome (post_translate rt g payload') =
          Response 200 (JsonBody (JObj [(py ''translated_code'',
             JStr (py (''// Translation error: '' @ exc_str e)))]))"
    if "startup load_dotenv os_environ = Inr g"
      and down: "\<forall>call. chat_completions_create rt (AsyncClient (GROQ_API_KEY g)) call = Inl e"
      and valid: "parse_CodeRequest payload = Inr request"
      and valid': "parse_TranslateRequest payload' = Inr request'"
  proof -
    from down handle [OF that(1)]
    have "review_try rt (client g) request = Inl e" "translate_try rt (client g) request' = Inl e"
      by (simp_all add: review_try_def translate_try_def and_then_def)
    with valid valid' show ?thesis
      by (simp add: post_review_def post_translate_def review_route_failed
          translate_route_valid translate_try_failed respond_def comment_renders)
  qed
  from start only used show ?thesis
    by blast
qed

text \<open>The key is set to \<^verbatim>\<open>gsk_1\<close> and no \<^verbatim>\<open>.env\<close> file changes the environment; the service
  is out of reach for the client with that key and does not know any other key.\<close>

theorem startup_needs_nonempty_key_witness:
  "startup (\<lambda>env. env) [''GROQ_API_KEY'' \<mapsto> ''gsk_1'']
     = Inr \<lparr>GROQ_API_KEY = ''gsk_1'', client = AsyncClient ''gsk_1''\<rparr>
   \<and> post_review ((scripted (Inl (PyException ''APIConnectionError'' ''Connection error.'')) [] [])
         \<lparr>chat_completions_create := keyed ''gsk_1'' (Inl (PyException ''APIConnectionError'' ''Connection error.''))\<rparr>)
         \<lparr>GROQ_API_KEY = ''gsk_1'', client = AsyncClient ''gsk_1''\<rparr> review_payload
       = post_review (scripted (Inl (PyException ''APIConnectionError'' ''Connection error.'')) [] [])
         \<lparr>GROQ_API_KEY = ''gsk_1'', client = AsyncClient ''gsk_1''\<rparr> review_payload
   \<and> post_translate ((scripted (Inl (PyException ''APIConnectionError'' ''Connection error.'')) [] [])
         \<lparr>chat_completions_create := keyed ''gsk_1'' (Inl (PyException ''APIConnectionError'' ''Connection error.''))\<rparr>)
         \<lparr>GROQ_API_KEY = ''gsk_1'', client = AsyncClient ''gsk_1''\<rparr> translate_payload
       = post_translate (scripted (Inl (PyException ''APIConnectionError'' ''Connection error.'')) [] [])
         \<lparr>GROQ_API_KEY = ''gsk_1'', client = AsyncClient ''gsk_1''\<rparr> translate_payload
   \<and> printed (post_review (scripted (Inl (PyException ''APIConnectionError'' ''Connection error.'')) [] [])
         \<lparr>GROQ_API_KEY = ''gsk_1'', client = AsyncClient ''gsk_1''\<rparr> review_payload)
       = [''Error: Connection error.'']
   \<and> outcome (post_translate (scripted (Inl (PyException ''APIConnectionError'' ''Connection error.'')) [] [])
         \<lparr>GROQ_API_KEY = ''gsk_1'', client = AsyncClient ''gsk_1''\<rparr> translate_payload)
       = Response 200 (JsonBody (JObj [(py ''translated_code'',
             JStr (py ''// Translation error: Connection error.''))]))"
proof -
  let ?down = "Inl (PyException ''APIConnectionError'' ''Connection error.'') :: py_exception + chat_completion"
  let ?rt = "scripted ?down [] []"
  let ?g = "\<lparr>GROQ_API_KEY = ''gsk_1'', client = AsyncClient ''gsk_1''\<rparr>"
  have agree: "\<forall>call. keyed ''gsk_1'' ?down (AsyncClient (GROQ_API_KEY ?g)) call
      = chat_completions_create ?rt (AsyncClient (GROQ_API_KEY ?g)) call"
    by (simp add: keyed_def scripted_def)
  have down: "\<forall>call. chat_completions_create ?rt (AsyncClient (GROQ_API_KEY ?g)) call = ?down"
    by (simp add: scripted_def)
  from startup_needs_nonempty_key [where load_dotenv = "\<lambda>env. env"
      and os_environ = "[''GROQ_API_KEY'' \<mapsto> ''gsk_1'']" and g = ?g
      and f = "keyed ''gsk_1'' ?down" and rt = ?rt and e = "PyException ''APIConnectionError'' ''Connection error.''"
      and payload = review_payload and payload' = translate_payload
      and request = review_request and request' = translate_request]
    agree down valid_review_payload valid_translate_payload
  show ?thesis
    by simp
qed

text \<open>The key is set, to the empty string: start-up raises.\<close>

theorem startup_with_empty_key_raises:
  "[''GROQ_API_KEY'' \<mapsto> []] ''GROQ_API_KEY'' = Some []
   \<and> startup (\<lambda>env. env) [''GROQ_API_KEY'' \<mapsto> []]
       = Inl (PyException ''ValueError'' ''CRITICAL: GROQ_API_KEY is not set in the .env file.'')"
  by (simp add: startup_def py_not_def)

end
